theory Spec2Isabelle
  imports Main
begin

text \<open>
  The chaincode of \<open>chaincode-go/chaincode/smartcontract.go\<close>: users, cars and their
  malfunctions in the world state of a ledger, and the handlers that read and write
  them.  The embedding follows the source handler by handler; the ledger stub and
  \<open>encoding/json\<close>, which the source calls, are modelled as far as the handlers use them.
\<close>

section \<open>Entity model (smartcontract.go, lines 16-40)\<close>

text \<open>
  The three structs of the chaincode.  The currency fields are \<open>float32\<close> in the source;
  they are kept as a type parameter \<open>'a\<close> that only has to offer the operators the source
  applies to them (\<open>0\<close>, \<open>+\<close>, \<open>-\<close>, \<open><\<close>, \<open>\<le>\<close>), so no definition below fixes an
  arithmetic.  Theorems that need laws of arithmetic name the class they need.
  A Go slice may be \<open>nil\<close>: \<open>Malfunctions\<close> is an optional list, \<open>None\<close> being \<open>nil\<close>.
  Strings are valid UTF-8 text, which \<open>encoding/json\<close> carries unchanged.
\<close>

record 'a Malfunction =
  Description :: string
  Price :: 'a

record 'a User =
  ID :: string
  DocType :: string
  FirstName :: string
  LastName :: string
  Email :: string
  Balance :: 'a

record 'a Car =
  ID :: string
  DocType :: string
  Brand :: string
  Model :: string
  Year :: string
  Color :: string
  Owner :: string
  Price :: 'a
  Malfunctions :: "'a Malfunction list option"

text \<open>The elements a \<open>range\<close> loop visits; a \<open>nil\<close> slice has none.\<close>

definition elems :: "'b list option \<Rightarrow> 'b list" where
  "elems s = (case s of None \<Rightarrow> [] | Some xs \<Rightarrow> xs)"

text \<open>Go's \<open>append(s, x)\<close>: the result is never \<open>nil\<close>.\<close>

definition append_slice :: "'b list option \<Rightarrow> 'b \<Rightarrow> 'b list option" where
  "append_slice s x = Some (elems s @ [x])"

text \<open>The zero values \<open>var car Car\<close> and \<open>var user User\<close> start from.\<close>

definition zero_Malfunction :: "'a::zero Malfunction" where
  "zero_Malfunction = \<lparr>Malfunction.Description = [], Malfunction.Price = 0\<rparr>"

definition zero_User :: "'a::zero User" where
  "zero_User = \<lparr>User.ID = [], User.DocType = [], FirstName = [], LastName = [], Email = [],
     Balance = 0\<rparr>"

definition zero_Car :: "'a::zero Car" where
  "zero_Car = \<lparr>Car.ID = [], Car.DocType = [], Brand = [], Model = [], Year = [], Color = [],
     Owner = [], Car.Price = 0, Malfunctions = None\<rparr>"

section \<open>Errors\<close>

text \<open>
  One constructor for each error the source builds with \<open>fmt.Errorf\<close>, carrying the
  argument of its message, and two for errors handed on unchanged: \<open>StubError\<close> is an error
  of the ledger stub or of its query iterator, \<open>JSONError\<close> one of \<open>encoding/json\<close>.
  A Go result of type \<open>error\<close> is an \<open>error option\<close>, \<open>None\<close> being \<open>nil\<close>.
\<close>

datatype error =
    StubError
  | JSONError
  | FailedToReadWorldState
  | FailedToPutWorldState
  | CarDoesNotExist string
  | CouldntFindCar string
  | UserDoesNotExist string
  | CouldntFindUser string
  | PriceZeroOrLower
  | AssetDoesNotExist string
  | PurchaseCanceled
  | NotEnoughMoneyForPurchase string
  | NotEnoughMoneyForRepair string

section \<open>The JSON encoding of the entities\<close>

text \<open>
  Stored values are byte strings.  A byte string either is a JSON text or is not
  (\<open>Garbage\<close>); a JSON text is kept as the value it denotes.  \<open>JNumber x\<close> is a number
  whose \<open>float32\<close> reading is \<open>x\<close>, \<open>JBigNumber\<close> a number outside the \<open>float32\<close> range,
  which \<open>json.Unmarshal\<close> refuses for a \<open>float32\<close> field.
\<close>

datatype 'a json =
    JNull
  | JBool bool
  | JNumber 'a
  | JBigNumber
  | JString string
  | JArray "'a json list"
  | JObject "(string \<times> 'a json) list"

datatype 'a bytes = Garbage | Text "'a json"

subsection \<open>json.Marshal\<close>

text \<open>
  The members are written in field order under the names of the struct tags.  For these
  structs \<open>json.Marshal\<close> has an error only for a float that is NaN or infinite; the amounts
  modelled here are all numbers, so the error branch of each caller is kept but never
  taken.
\<close>

definition json_Malfunction :: "'a Malfunction \<Rightarrow> 'a json" where
  "json_Malfunction m =
     JObject [(''description'', JString (Malfunction.Description m)),
              (''price'', JNumber (Malfunction.Price m))]"

definition json_User :: "'a User \<Rightarrow> 'a json" where
  "json_User u =
     JObject [(''ID'', JString (User.ID u)),
              (''docType'', JString (User.DocType u)),
              (''firstName'', JString (FirstName u)),
              (''lastName'', JString (LastName u)),
              (''email'', JString (Email u)),
              (''balance'', JNumber (Balance u))]"

definition json_Car :: "'a Car \<Rightarrow> 'a json" where
  "json_Car c =
     JObject [(''ID'', JString (Car.ID c)),
              (''docType'', JString (Car.DocType c)),
              (''brand'', JString (Brand c)),
              (''model'', JString (Model c)),
              (''year'', JString (Year c)),
              (''color'', JString (Color c)),
              (''owner'', JString (Owner c)),
              (''price'', JNumber (Car.Price c)),
              (''malfunctions'',
                 (case Malfunctions c of
                    None \<Rightarrow> JNull
                  | Some ms \<Rightarrow> JArray (map json_Malfunction ms)))]"

definition Marshal_User :: "'a User \<Rightarrow> error + 'a bytes" where
  "Marshal_User u = Inr (Text (json_User u))"

definition Marshal_Car :: "'a Car \<Rightarrow> error + 'a bytes" where
  "Marshal_Car c = Inr (Text (json_Car c))"

subsection \<open>json.Unmarshal\<close>

text \<open>
  \<open>json.Unmarshal\<close> into a struct reads the members of an object in document order.  A
  member is matched to the field whose tag equals its name, or else to the first field
  whose tag equals it up to letter case; a member that matches no field is skipped; a
  field no member matches keeps its value.  Letter case is Unicode simple folding: beyond
  the ASCII letters, the long s (bytes C5 BF) equals \<open>s\<close> and the Kelvin sign (bytes
  E2 84 AA) equals \<open>k\<close>, and no other character equals a letter of a tag.  \<open>null\<close> leaves a field as it is
  (and makes a slice \<open>nil\<close>); a value of another JSON type than the field's is an error.
  An object that repeats the \<open>malfunctions\<close> member is read here as if each were the
  first; Go would reuse the slice built by the earlier one.
\<close>

definition lower :: "char \<Rightarrow> char" where
  "lower c = (let n = (of_char c :: nat) in if 65 \<le> n \<and> n \<le> 90 then char_of (n + 32) else c)"

fun fold_name :: "string \<Rightarrow> string" where
  "fold_name [] = []"
| "fold_name (c # cs) =
     (if take 2 (c # cs) = [CHR 0xC5, CHR 0xBF] then CHR ''s'' # fold_name (drop 1 cs)
      else if take 3 (c # cs) = [CHR 0xE2, CHR 0x84, CHR 0xAA] then CHR ''k'' # fold_name (drop 2 cs)
      else lower c # fold_name cs)"

definition find_field :: "string list \<Rightarrow> string \<Rightarrow> string option" where
  "find_field tags key =
     (if key \<in> set tags then Some key
      else find (\<lambda>t. fold_name t = fold_name key) tags)"

fun dec_string :: "'a json \<Rightarrow> string \<Rightarrow> string option" where
  "dec_string (JString s) cur = Some s"
| "dec_string JNull cur = Some cur"
| "dec_string _ cur = None"

fun dec_float32 :: "'a json \<Rightarrow> 'a \<Rightarrow> 'a option" where
  "dec_float32 (JNumber x) cur = Some x"
| "dec_float32 JNull cur = Some cur"
| "dec_float32 _ cur = None"

definition set_Malfunction_field :: "string \<Rightarrow> 'a json \<Rightarrow> 'a Malfunction \<Rightarrow> 'a Malfunction option" where
  "set_Malfunction_field tag v m =
     (if tag = ''description'' then
        map_option (\<lambda>s. m\<lparr>Malfunction.Description := s\<rparr>) (dec_string v (Malfunction.Description m))
      else
        map_option (\<lambda>x. m\<lparr>Malfunction.Price := x\<rparr>) (dec_float32 v (Malfunction.Price m)))"

fun dec_Malfunction_members :: "(string \<times> 'a json) list \<Rightarrow> 'a Malfunction \<Rightarrow> 'a Malfunction option" where
  "dec_Malfunction_members [] m = Some m"
| "dec_Malfunction_members ((key, v) # kvs) m =
     (case find_field [''description'', ''price''] key of
        None \<Rightarrow> dec_Malfunction_members kvs m
      | Some tag \<Rightarrow>
          (case set_Malfunction_field tag v m of
             None \<Rightarrow> None
           | Some m' \<Rightarrow> dec_Malfunction_members kvs m'))"

fun dec_Malfunction :: "'a json \<Rightarrow> 'a Malfunction \<Rightarrow> 'a Malfunction option" where
  "dec_Malfunction (JObject kvs) cur = dec_Malfunction_members kvs cur"
| "dec_Malfunction JNull cur = Some cur"
| "dec_Malfunction _ cur = None"

fun dec_elements :: "'a::zero json list \<Rightarrow> 'a Malfunction list option" where
  "dec_elements [] = Some []"
| "dec_elements (v # vs) =
     (case dec_Malfunction v zero_Malfunction of
        None \<Rightarrow> None
      | Some m \<Rightarrow> map_option ((#) m) (dec_elements vs))"

fun dec_Malfunctions :: "'a::zero json \<Rightarrow> 'a Malfunction list option \<Rightarrow> 'a Malfunction list option option" where
  "dec_Malfunctions (JArray vs) cur = map_option Some (dec_elements vs)"
| "dec_Malfunctions JNull cur = Some None"
| "dec_Malfunctions _ cur = None"

definition set_User_field :: "string \<Rightarrow> 'a json \<Rightarrow> 'a User \<Rightarrow> 'a User option" where
  "set_User_field tag v u =
     (if tag = ''ID'' then map_option (\<lambda>s. u\<lparr>User.ID := s\<rparr>) (dec_string v (User.ID u))
      else if tag = ''docType'' then
        map_option (\<lambda>s. u\<lparr>User.DocType := s\<rparr>) (dec_string v (User.DocType u))
      else if tag = ''firstName'' then
        map_option (\<lambda>s. u\<lparr>FirstName := s\<rparr>) (dec_string v (FirstName u))
      else if tag = ''lastName'' then
        map_option (\<lambda>s. u\<lparr>LastName := s\<rparr>) (dec_string v (LastName u))
      else if tag = ''email'' then
        map_option (\<lambda>s. u\<lparr>Email := s\<rparr>) (dec_string v (Email u))
      else map_option (\<lambda>x. u\<lparr>Balance := x\<rparr>) (dec_float32 v (Balance u)))"

definition User_tags :: "string list" where
  "User_tags = [''ID'', ''docType'', ''firstName'', ''lastName'', ''email'', ''balance'']"

fun dec_User_members :: "(string \<times> 'a json) list \<Rightarrow> 'a User \<Rightarrow> 'a User option" where
  "dec_User_members [] u = Some u"
| "dec_User_members ((key, v) # kvs) u =
     (case find_field User_tags key of
        None \<Rightarrow> dec_User_members kvs u
      | Some tag \<Rightarrow>
          (case set_User_field tag v u of
             None \<Rightarrow> None
           | Some u' \<Rightarrow> dec_User_members kvs u'))"

definition set_Car_field :: "string \<Rightarrow> 'a::zero json \<Rightarrow> 'a Car \<Rightarrow> 'a Car option" where
  "set_Car_field tag v c =
     (if tag = ''ID'' then map_option (\<lambda>s. c\<lparr>Car.ID := s\<rparr>) (dec_string v (Car.ID c))
      else if tag = ''docType'' then
        map_option (\<lambda>s. c\<lparr>Car.DocType := s\<rparr>) (dec_string v (Car.DocType c))
      else if tag = ''brand'' then map_option (\<lambda>s. c\<lparr>Brand := s\<rparr>) (dec_string v (Brand c))
      else if tag = ''model'' then map_option (\<lambda>s. c\<lparr>Model := s\<rparr>) (dec_string v (Model c))
      else if tag = ''year'' then map_option (\<lambda>s. c\<lparr>Year := s\<rparr>) (dec_string v (Year c))
      else if tag = ''color'' then map_option (\<lambda>s. c\<lparr>Color := s\<rparr>) (dec_string v (Color c))
      else if tag = ''owner'' then map_option (\<lambda>s. c\<lparr>Owner := s\<rparr>) (dec_string v (Owner c))
      else if tag = ''price'' then
        map_option (\<lambda>x. c\<lparr>Car.Price := x\<rparr>) (dec_float32 v (Car.Price c))
      else map_option (\<lambda>ms. c\<lparr>Malfunctions := ms\<rparr>) (dec_Malfunctions v (Malfunctions c)))"

definition Car_tags :: "string list" where
  "Car_tags = [''ID'', ''docType'', ''brand'', ''model'', ''year'', ''color'', ''owner'', ''price'',
     ''malfunctions'']"

fun dec_Car_members :: "(string \<times> 'a::zero json) list \<Rightarrow> 'a Car \<Rightarrow> 'a Car option" where
  "dec_Car_members [] c = Some c"
| "dec_Car_members ((key, v) # kvs) c =
     (case find_field Car_tags key of
        None \<Rightarrow> dec_Car_members kvs c
      | Some tag \<Rightarrow>
          (case set_Car_field tag v c of
             None \<Rightarrow> None
           | Some c' \<Rightarrow> dec_Car_members kvs c'))"

text \<open>\<open>var user User; err = json.Unmarshal(assetJSON, &user)\<close>, and the same for a car.\<close>

fun Unmarshal_User :: "'a::zero bytes \<Rightarrow> error + 'a User" where
  "Unmarshal_User Garbage = Inl JSONError"
| "Unmarshal_User (Text (JObject kvs)) =
     (case dec_User_members kvs zero_User of None \<Rightarrow> Inl JSONError | Some u \<Rightarrow> Inr u)"
| "Unmarshal_User (Text JNull) = Inr zero_User"
| "Unmarshal_User (Text _) = Inl JSONError"

fun Unmarshal_Car :: "'a::zero bytes \<Rightarrow> error + 'a Car" where
  "Unmarshal_Car Garbage = Inl JSONError"
| "Unmarshal_Car (Text (JObject kvs)) =
     (case dec_Car_members kvs zero_Car of None \<Rightarrow> Inl JSONError | Some c \<Rightarrow> Inr c)"
| "Unmarshal_Car (Text JNull) = Inr zero_Car"
| "Unmarshal_Car (Text _) = Inl JSONError"

section \<open>The ledger stub\<close>

text \<open>
  \<open>ctx.GetStub()\<close> is an interface of the ledger platform.  Its state is the world state
  (key to bytes), the rich-query facility \<open>rich\<close>, which maps a query string and the world
  state to the results an iterator yields (each \<open>Next()\<close> giving a key-value pair or an
  error), and a script \<open>faults\<close> of outcomes: every call of the stub takes the head of the
  script and fails when it is \<open>True\<close>; an empty script means no call fails.  Any run of
  one handler against a stub that fails some of its calls is a run for some script.
  A write takes effect at once; every handler below does all its reads before its first
  write, so this cannot be told from a stub that collects the writes and applies them
  when the invocation ends.
\<close>

record 'a stub =
  world :: "string \<Rightarrow> 'a bytes option"
  faults :: "bool list"
  rich :: "string \<Rightarrow> (string \<Rightarrow> 'a bytes option) \<Rightarrow> (error + string \<times> 'a bytes) list"

definition next_fault :: "'a stub \<Rightarrow> bool \<times> 'a stub" where
  "next_fault ctx =
     (case faults ctx of [] \<Rightarrow> (False, ctx) | f # fs \<Rightarrow> (f, ctx\<lparr>faults := fs\<rparr>))"

definition GetState :: "'a stub \<Rightarrow> string \<Rightarrow> (error + 'a bytes option) \<times> 'a stub" where
  "GetState ctx key =
     (case next_fault ctx of
        (True, ctx') \<Rightarrow> (Inl StubError, ctx')
      | (False, ctx') \<Rightarrow> (Inr (world ctx' key), ctx'))"

definition PutState :: "'a stub \<Rightarrow> string \<Rightarrow> 'a bytes \<Rightarrow> error option \<times> 'a stub" where
  "PutState ctx key val =
     (case next_fault ctx of
        (True, ctx') \<Rightarrow> (Some StubError, ctx')
      | (False, ctx') \<Rightarrow> (None, ctx'\<lparr>world := (world ctx')(key \<mapsto> val)\<rparr>))"

definition DelState :: "'a stub \<Rightarrow> string \<Rightarrow> error option \<times> 'a stub" where
  "DelState ctx key =
     (case next_fault ctx of
        (True, ctx') \<Rightarrow> (Some StubError, ctx')
      | (False, ctx') \<Rightarrow> (None, ctx'\<lparr>world := (world ctx')(key := None)\<rparr>))"

definition GetQueryResult ::
  "'a stub \<Rightarrow> string \<Rightarrow> (error + (error + string \<times> 'a bytes) list) \<times> 'a stub" where
  "GetQueryResult ctx queryString =
     (case next_fault ctx of
        (True, ctx') \<Rightarrow> (Inl StubError, ctx')
      | (False, ctx') \<Rightarrow> (Inr (rich ctx' queryString (world ctx')), ctx'))"

section \<open>Operation handlers\<close>

text \<open>
  Each handler takes the stub and its arguments and returns its result with the stub
  afterwards.  The source's parameter \<open>id\<close> is written \<open>id'\<close>.
\<close>

subsection \<open>ReadCar, ReadUser (lines 129-169)\<close>

definition ReadCar :: "'a::zero stub \<Rightarrow> string \<Rightarrow> (error + 'a Car) \<times> 'a stub" where
  "ReadCar ctx id' =
     (case GetState ctx id' of
        (Inl err, ctx') \<Rightarrow> (Inl FailedToReadWorldState, ctx')
      | (Inr None, ctx') \<Rightarrow> (Inl (CarDoesNotExist id'), ctx')
      | (Inr (Some assetJSON), ctx') \<Rightarrow>
          (case Unmarshal_Car assetJSON of
             Inl err \<Rightarrow> (Inl (CouldntFindCar id'), ctx')
           | Inr car \<Rightarrow> (Inr car, ctx')))"

definition ReadUser :: "'a::zero stub \<Rightarrow> string \<Rightarrow> (error + 'a User) \<times> 'a stub" where
  "ReadUser ctx id' =
     (case GetState ctx id' of
        (Inl err, ctx') \<Rightarrow> (Inl FailedToReadWorldState, ctx')
      | (Inr None, ctx') \<Rightarrow> (Inl (UserDoesNotExist id'), ctx')
      | (Inr (Some assetJSON), ctx') \<Rightarrow>
          (case Unmarshal_User assetJSON of
             Inl err \<Rightarrow> (Inl (CouldntFindUser id'), ctx')
           | Inr user \<Rightarrow> (Inr user, ctx')))"

subsection \<open>AssetExists, DeleteAsset (lines 191-212)\<close>

definition AssetExists :: "'a stub \<Rightarrow> string \<Rightarrow> (error + bool) \<times> 'a stub" where
  "AssetExists ctx id' =
     (case GetState ctx id' of
        (Inl err, ctx') \<Rightarrow> (Inl FailedToReadWorldState, ctx')
      | (Inr assetJSON, ctx') \<Rightarrow> (Inr (assetJSON \<noteq> None), ctx'))"

definition DeleteAsset :: "'a stub \<Rightarrow> string \<Rightarrow> error option \<times> 'a stub" where
  "DeleteAsset ctx id' =
     (case AssetExists ctx id' of
        (Inl err, ctx') \<Rightarrow> (Some err, ctx')
      | (Inr exists, ctx') \<Rightarrow>
          if \<not> exists then (Some (AssetDoesNotExist id'), ctx')
          else DelState ctx' id')"

subsection \<open>ChangeColor (lines 172-188)\<close>

definition ChangeColor :: "'a::zero stub \<Rightarrow> string \<Rightarrow> string \<Rightarrow> error option \<times> 'a stub" where
  "ChangeColor ctx id' color =
     (case ReadCar ctx id' of
        (Inl err, ctx') \<Rightarrow> (Some err, ctx')
      | (Inr car, ctx') \<Rightarrow>
          (let car' = car\<lparr>Color := color\<rparr> in
           case Marshal_Car car' of
             Inl err \<Rightarrow> (Some err, ctx')
           | Inr carJSON \<Rightarrow> PutState ctx' (Car.ID car') carJSON))"

subsection \<open>AddMalfunction (lines 91-126)\<close>

text \<open>The loops \<open>for _, mf := range car.Malfunctions { acc += mf.Price }\<close>, from \<open>acc\<close>.\<close>

definition sum_prices :: "'a::plus \<Rightarrow> 'a Malfunction list option \<Rightarrow> 'a" where
  "sum_prices acc ms = foldl (\<lambda>t mf. t + Malfunction.Price mf) acc (elems ms)"

definition AddMalfunction ::
  "'a::{zero,plus,ord} stub \<Rightarrow> string \<Rightarrow> string \<Rightarrow> 'a \<Rightarrow> error option \<times> 'a stub" where
  "AddMalfunction ctx id' description price =
     (case ReadCar ctx id' of
        (Inl err, ctx') \<Rightarrow> (Some err, ctx')
      | (Inr car, ctx') \<Rightarrow>
          if price \<le> 0 then (Some PriceZeroOrLower, ctx')
          else
            (let totalMalfunctionPrice = sum_prices price (Malfunctions car) in
             if totalMalfunctionPrice > Car.Price car then DeleteAsset ctx' id'
             else
               (let malfunction =
                      \<lparr>Malfunction.Description = description, Malfunction.Price = price\<rparr>;
                    car' = car\<lparr>Malfunctions := append_slice (Malfunctions car) malfunction\<rparr>
                in case Marshal_Car car' of
                     Inl err \<Rightarrow> (Some err, ctx')
                   | Inr carJSON \<Rightarrow> PutState ctx' id' carJSON)))"

subsection \<open>BuyCar (lines 215-274)\<close>

text \<open>
  Lines 234-246 either give \<open>carTotalPrice\<close> or return the cancellation; the \<open>case\<close>
  below is that block.  The results of the \<open>PutState\<close> calls of lines 260 and 266 are
  dropped, as in the source.
\<close>

definition BuyCar ::
  "'a::{zero,plus,minus,ord} stub \<Rightarrow> string \<Rightarrow> string \<Rightarrow> bool \<Rightarrow> error option \<times> 'a stub" where
  "BuyCar ctx id' newOwner flag =
     (case ReadCar ctx id' of
        (Inl err, c1) \<Rightarrow> (Some err, c1)
      | (Inr car, c1) \<Rightarrow>
     (case ReadUser c1 (Owner car) of
        (Inl ouErr, c2) \<Rightarrow> (Some ouErr, c2)
      | (Inr oldUSer, c2) \<Rightarrow>
     (case ReadUser c2 newOwner of
        (Inl nuErr, c3) \<Rightarrow> (Some nuErr, c3)
      | (Inr newUser, c3) \<Rightarrow>
          (let mfCosts = sum_prices 0 (Malfunctions car)
           in case (if mfCosts > 0
                    then (if flag then Inr (Car.Price car - mfCosts) else Inl PurchaseCanceled)
                    else Inr (Car.Price car)) of
                Inl err \<Rightarrow> (Some err, c3)
              | Inr carTotalPrice \<Rightarrow>
                  if Balance newUser < carTotalPrice then
                    (Some (NotEnoughMoneyForPurchase newOwner), c3)
                  else
                    (let newUser' = newUser\<lparr>Balance := Balance newUser - carTotalPrice\<rparr>;
                         oldUSer' = oldUSer\<lparr>Balance := Balance oldUSer + carTotalPrice\<rparr>;
                         car' = car\<lparr>Owner := newOwner\<rparr>
                     in case Marshal_User oldUSer' of
                          Inl ouErr \<Rightarrow> (Some ouErr, c3)
                        | Inr oldUSerJSON \<Rightarrow>
                            (let c4 = snd (PutState c3 (User.ID oldUSer') oldUSerJSON)
                             in case Marshal_User newUser' of
                                  Inl nuErr \<Rightarrow> (Some nuErr, c4)
                                | Inr newUSerJSON \<Rightarrow>
                                    (let c5 = snd (PutState c4 newOwner newUSerJSON)
                                     in case Marshal_Car car' of
                                          Inl err \<Rightarrow> (Some err, c5)
                                        | Inr carJSON \<Rightarrow> PutState c5 id' carJSON)))))))"

text \<open>The value of \<open>carTotalPrice\<close> in the runs that get past line 246.\<close>

definition carTotalPrice :: "'a::{zero,plus,minus,ord} Car \<Rightarrow> 'a" where
  "carTotalPrice car =
     (let mfCosts = sum_prices 0 (Malfunctions car)
      in if mfCosts > 0 then Car.Price car - mfCosts else Car.Price car)"

subsection \<open>FixCar (lines 276-327)\<close>

definition FixCar :: "'a::{zero,plus,minus,ord} stub \<Rightarrow> string \<Rightarrow> error option \<times> 'a stub" where
  "FixCar ctx id' =
     (case ReadCar ctx id' of
        (Inl err, c1) \<Rightarrow> (Some err, c1)
      | (Inr car, c1) \<Rightarrow>
     (case ReadUser c1 (Owner car) of
        (Inl oErr, c2) \<Rightarrow> (Some oErr, c2)
      | (Inr owner, c2) \<Rightarrow>
     (case ReadUser c2 ''user3'' of
        (Inl mErr, c3) \<Rightarrow> (Some mErr, c3)
      | (Inr mechanic, c3) \<Rightarrow>
          (let price = sum_prices 0 (Malfunctions car)
           in if Balance owner < price then (Some (NotEnoughMoneyForRepair (User.ID owner)), c3)
              else
                (let car' = car\<lparr>Malfunctions := Some []\<rparr>;
                     owner' = owner\<lparr>Balance := Balance owner - price\<rparr>;
                     mechanic' = mechanic\<lparr>Balance := Balance mechanic + price\<rparr>
                 in case Marshal_User owner' of
                      Inl oErr \<Rightarrow> (Some oErr, c3)
                    | Inr ownerJSON \<Rightarrow>
                        (let c4 = snd (PutState c3 (User.ID owner') ownerJSON)
                         in case Marshal_User mechanic' of
                              Inl mErr \<Rightarrow> (Some mErr, c4)
                            | Inr mechanicJSON \<Rightarrow>
                                (let c5 = snd (PutState c4 (User.ID mechanic') mechanicJSON)
                                 in case Marshal_Car car' of
                                      Inl err \<Rightarrow> (Some err, c5)
                                    | Inr carJSON \<Rightarrow> PutState c5 id' carJSON)))))))"

subsection \<open>Queries (lines 344-382)\<close>

text \<open>
  The iterator is the list of what its \<open>Next()\<close> calls return; \<open>HasNext()\<close> holds while
  the list is not empty.  \<open>cars\<close> is the slice collected so far.  Closing the iterator
  (line 356) has no effect on a result and is left out.
\<close>

fun collect_cars :: "'a::zero Car list \<Rightarrow> (error + string \<times> 'a bytes) list \<Rightarrow> error + 'a Car list" where
  "collect_cars cars [] = Inr cars"
| "collect_cars cars (Inl err # resultsIterator) = Inl err"
| "collect_cars cars (Inr queryResult # resultsIterator) =
     (case Unmarshal_Car (snd queryResult) of
        Inl err \<Rightarrow> Inl err
      | Inr car \<Rightarrow> collect_cars (cars @ [car]) resultsIterator)"

definition constructQueryResponseFromIterator ::
  "(error + string \<times> 'a::zero bytes) list \<Rightarrow> error + 'a Car list" where
  "constructQueryResponseFromIterator resultsIterator = collect_cars [] resultsIterator"

definition getQueryResultForQueryString ::
  "'a::zero stub \<Rightarrow> string \<Rightarrow> (error + 'a Car list) \<times> 'a stub" where
  "getQueryResultForQueryString ctx queryString =
     (case GetQueryResult ctx queryString of
        (Inl err, ctx') \<Rightarrow> (Inl err, ctx')
      | (Inr resultsIterator, ctx') \<Rightarrow>
          (constructQueryResponseFromIterator resultsIterator, ctx'))"

definition QueryAssets :: "'a::zero stub \<Rightarrow> string \<Rightarrow> (error + 'a Car list) \<times> 'a stub" where
  "QueryAssets ctx queryString = getQueryResultForQueryString ctx queryString"

text \<open>The three handlers that build the selector with \<open>fmt.Sprintf\<close> (lines 329-342).\<close>

definition QueryAssetsByColor :: "'a::zero stub \<Rightarrow> string \<Rightarrow> (error + 'a Car list) \<times> 'a stub" where
  \<open>QueryAssetsByColor ctx color =
     getQueryResultForQueryString ctx
       (''{"selector":{"docType":"car","color":"'' @ color @ ''"}}'')\<close>

definition QueryAssetsByOwner :: "'a::zero stub \<Rightarrow> string \<Rightarrow> (error + 'a Car list) \<times> 'a stub" where
  \<open>QueryAssetsByOwner ctx owner =
     getQueryResultForQueryString ctx
       (''{"selector":{"docType":"car","owner":"'' @ owner @ ''"}}'')\<close>

definition QueryAssetsByColorAndOwner ::
  "'a::zero stub \<Rightarrow> string \<Rightarrow> string \<Rightarrow> (error + 'a Car list) \<times> 'a stub" where
  \<open>QueryAssetsByColorAndOwner ctx color owner =
     getQueryResultForQueryString ctx
       (''{"selector":{"docType":"car","color":"'' @ color @ ''", "owner":"'' @ owner @ ''"}}'')\<close>

subsection \<open>InitLedger (lines 43-88)\<close>

definition seed_users :: "'a::numeral User list" where
  "seed_users =
     [\<lparr>User.ID = ''user1'', User.DocType = ''user'', FirstName = ''Marko'',
        LastName = ''Markovic'', Email = ''marko@gugl.com'', Balance = 9000\<rparr>,
      \<lparr>User.ID = ''user2'', User.DocType = ''user'', FirstName = ''Petar'',
        LastName = ''Petrovic'', Email = ''petar@jahu.com'', Balance = 3500\<rparr>,
      \<lparr>User.ID = ''user3'', User.DocType = ''user'', FirstName = ''Nikola'',
        LastName = ''Nikolic'', Email = ''nikola@bing.com'', Balance = 4000\<rparr>]"

definition seed_cars :: "'a::numeral Car list" where
  "seed_cars =
     [\<lparr>Car.ID = ''car1'', Car.DocType = ''car'', Brand = ''Ferrari'', Model = ''F40'',
        Year = ''1990'', Color = ''Red'', Owner = ''user1'', Car.Price = 5000,
        Malfunctions = Some []\<rparr>,
      \<lparr>Car.ID = ''car2'', Car.DocType = ''car'', Brand = ''Rolls Royce'', Model = ''Phantom'',
        Year = ''2018'', Color = ''Black'', Owner = ''user1'', Car.Price = 20000,
        Malfunctions = Some []\<rparr>,
      \<lparr>Car.ID = ''car3'', Car.DocType = ''car'', Brand = ''Ford'', Model = ''GT40'',
        Year = ''1969'', Color = ''Blue'', Owner = ''user1'', Car.Price = 7000,
        Malfunctions = Some []\<rparr>,
      \<lparr>Car.ID = ''car4'', Car.DocType = ''car'', Brand = ''Ford'', Model = ''Mustang'',
        Year = ''2020'', Color = ''Black'', Owner = ''user2'', Car.Price = 12000,
        Malfunctions = Some []\<rparr>,
      \<lparr>Car.ID = ''car5'', Car.DocType = ''car'', Brand = ''Tesla'', Model = ''S'',
        Year = ''2019'', Color = ''White'', Owner = ''user2'', Car.Price = 9000,
        Malfunctions = Some []\<rparr>,
      \<lparr>Car.ID = ''car6'', Car.DocType = ''car'', Brand = ''Mazda'', Model = ''6'',
        Year = ''2018'', Color = ''Grey'', Owner = ''user2'', Car.Price = 10000,
        Malfunctions = Some []\<rparr>]"

fun put_users :: "'a stub \<Rightarrow> 'a User list \<Rightarrow> error option \<times> 'a stub" where
  "put_users ctx [] = (None, ctx)"
| "put_users ctx (user # users) =
     (case Marshal_User user of
        Inl err \<Rightarrow> (Some err, ctx)
      | Inr userJSON \<Rightarrow>
          (case PutState ctx (User.ID user) userJSON of
             (Some err, ctx') \<Rightarrow> (Some FailedToPutWorldState, ctx')
           | (None, ctx') \<Rightarrow> put_users ctx' users))"

fun put_cars :: "'a stub \<Rightarrow> 'a Car list \<Rightarrow> error option \<times> 'a stub" where
  "put_cars ctx [] = (None, ctx)"
| "put_cars ctx (car # cars) =
     (case Marshal_Car car of
        Inl err \<Rightarrow> (Some err, ctx)
      | Inr carJSON \<Rightarrow>
          (case PutState ctx (Car.ID car) carJSON of
             (Some err, ctx') \<Rightarrow> (Some FailedToPutWorldState, ctx')
           | (None, ctx') \<Rightarrow> put_cars ctx' cars))"

definition InitLedger :: "'a::numeral stub \<Rightarrow> error option \<times> 'a stub" where
  "InitLedger ctx =
     (case put_users ctx seed_users of
        (Some err, ctx') \<Rightarrow> (Some err, ctx')
      | (None, ctx') \<Rightarrow> put_cars ctx' seed_cars)"

section \<open>Reading a ledger\<close>

text \<open>What a caller sees of a user or a car through \<open>ReadUser\<close> and \<open>ReadCar\<close>.\<close>

definition balance_of :: "'a::zero stub \<Rightarrow> string \<Rightarrow> 'a option" where
  "balance_of ctx key =
     (case fst (ReadUser ctx key) of Inl err \<Rightarrow> None | Inr user \<Rightarrow> Some (Balance user))"

definition owner_of :: "'a::zero stub \<Rightarrow> string \<Rightarrow> string option" where
  "owner_of ctx key =
     (case fst (ReadCar ctx key) of Inl err \<Rightarrow> None | Inr car \<Rightarrow> Some (Owner car))"

definition malfunctions_of :: "'a::zero stub \<Rightarrow> string \<Rightarrow> 'a Malfunction list option" where
  "malfunctions_of ctx key =
     (case fst (ReadCar ctx key) of Inl err \<Rightarrow> None | Inr car \<Rightarrow> Malfunctions car)"

text \<open>The user and the car a key holds: what the stored bytes decode to.\<close>

definition stored_user :: "'a::zero stub \<Rightarrow> string \<Rightarrow> 'a User option" where
  "stored_user ctx key =
     (case world ctx key of
        None \<Rightarrow> None
      | Some b \<Rightarrow> (case Unmarshal_User b of Inl err \<Rightarrow> None | Inr user \<Rightarrow> Some user))"

definition stored_car :: "'a::zero stub \<Rightarrow> string \<Rightarrow> 'a Car option" where
  "stored_car ctx key =
     (case world ctx key of
        None \<Rightarrow> None
      | Some b \<Rightarrow> (case Unmarshal_Car b of Inl err \<Rightarrow> None | Inr car \<Rightarrow> Some car))"

text \<open>
  One turn of the loop of \<open>constructQueryResponseFromIterator\<close> (lines 365-376): what
  \<open>Next()\<close> gave, decoded as a car.
\<close>

definition next_car :: "error + string \<times> 'a::zero bytes \<Rightarrow> error + 'a Car" where
  "next_car r =
     (case r of Inl err \<Rightarrow> Inl err | Inr queryResult \<Rightarrow> Unmarshal_Car (snd queryResult))"

section \<open>Concrete ledgers\<close>

text \<open>
  Ledgers for the examples, with amounts in whole currency units: a stub with an empty
  world state that never fails and answers no query, and the ledger \<open>InitLedger\<close> makes
  of it.
\<close>

definition empty_stub :: "int stub" where
  "empty_stub = \<lparr>world = Map.empty, faults = [], rich = (\<lambda>queryString w. [])\<rparr>"

definition seeded :: "int stub" where
  "seeded = snd (InitLedger empty_stub)"

text \<open>The seeded ledger after one malfunction of \<open>car1\<close>, within its price.\<close>

definition flat_tires :: "int stub" where
  "flat_tires = snd (AddMalfunction seeded ''car1'' ''Flat tires'' 850)"

text \<open>The seeded ledger after two malfunctions of \<open>car5\<close>, 6500 of its price of 9000.\<close>

definition damaged :: "int stub" where
  "damaged =
     snd (AddMalfunction (snd (AddMalfunction seeded ''car5'' ''Broken windshields'' 5000))
            ''car5'' ''Charging issues'' 1500)"

text \<open>The seeded ledger after \<open>user1\<close> bought \<open>car5\<close> from \<open>user2\<close> for 9000.\<close>

definition sold :: "int stub" where
  "sold = snd (BuyCar seeded ''car5'' ''user1'' False)"

text \<open>
  A ledger in which the mechanic owns a car with a malfunction: \<open>user1\<close> has \<open>car2\<close>
  repaired for 9000, \<open>user3\<close> buys \<open>car1\<close> with what it earned, and \<open>car1\<close> gets flat
  tires.
\<close>

definition own_repair :: "int stub" where
  "own_repair =
     (let c1 = snd (AddMalfunction seeded ''car2'' ''Water leaks'' 9000);
          c2 = snd (FixCar c1 ''car2'');
          c3 = snd (BuyCar c2 ''car1'' ''user3'' False)
      in snd (AddMalfunction c3 ''car1'' ''Flat tires'' 850))"

text \<open>
  A query facility for the examples: it answers the selector on \<open>docType = "user"\<close> with
  the records under the given keys whose document has that member, and any other query
  with nothing.
\<close>

definition has_docType :: "string \<Rightarrow> 'a bytes \<Rightarrow> bool" where
  "has_docType t b =
     (case b of
        Text (JObject kvs) \<Rightarrow> map_of kvs ''docType'' = Some (JString t)
      | _ \<Rightarrow> False)"

definition select_docType ::
  "string \<Rightarrow> string list \<Rightarrow> (string \<Rightarrow> 'a bytes option) \<Rightarrow> (error + string \<times> 'a bytes) list" where
  "select_docType t keys w =
     concat (map (\<lambda>key. case w key of
                          None \<Rightarrow> []
                        | Some b \<Rightarrow> if has_docType t b then [Inr (key, b)] else []) keys)"

definition users_selector :: string where
  \<open>users_selector = ''{"selector":{"docType":"user"}}''\<close>

definition catalogue :: "int stub" where
  "catalogue =
     seeded\<lparr>rich := (\<lambda>queryString w.
        if queryString = users_selector
        then select_docType ''user''
               [''car1'', ''car2'', ''car3'', ''car4'', ''car5'', ''car6'',
                ''user1'', ''user2'', ''user3''] w
        else [])\<rparr>"

text \<open>A query result that is no car: its \<open>price\<close> member is a string.\<close>

definition mispriced :: "int bytes" where
  "mispriced =
     Text (JObject [(''ID'', JString ''car9''), (''docType'', JString ''car''),
                    (''price'', JString ''cheap'')])"

section \<open>Encoding and decoding\<close>

text \<open>
  What \<open>json.Marshal\<close> writes, \<open>json.Unmarshal\<close> reads back into the same struct.  Read
  into the other struct, only the members \<open>ID\<close> and \<open>docType\<close> match a field: the
  rest of the document is skipped and the rest of the struct stays zero, without error.
\<close>

lemma find_field_User_tags [simp]:
  "find_field User_tags ''ID'' = Some ''ID''"
  "find_field User_tags ''docType'' = Some ''docType''"
  "find_field User_tags ''firstName'' = Some ''firstName''"
  "find_field User_tags ''lastName'' = Some ''lastName''"
  "find_field User_tags ''email'' = Some ''email''"
  "find_field User_tags ''balance'' = Some ''balance''"
  by (simp_all add: find_field_def User_tags_def)

lemma find_field_Car_tags [simp]:
  "find_field Car_tags ''ID'' = Some ''ID''"
  "find_field Car_tags ''docType'' = Some ''docType''"
  "find_field Car_tags ''brand'' = Some ''brand''"
  "find_field Car_tags ''model'' = Some ''model''"
  "find_field Car_tags ''year'' = Some ''year''"
  "find_field Car_tags ''color'' = Some ''color''"
  "find_field Car_tags ''owner'' = Some ''owner''"
  "find_field Car_tags ''price'' = Some ''price''"
  "find_field Car_tags ''malfunctions'' = Some ''malfunctions''"
  by (simp_all add: find_field_def Car_tags_def)

lemma find_field_Car_tags_user [simp]:
  "find_field Car_tags ''firstName'' = None"
  "find_field Car_tags ''lastName'' = None"
  "find_field Car_tags ''email'' = None"
  "find_field Car_tags ''balance'' = None"
  by (simp_all add: find_field_def Car_tags_def lower_def)

lemma Unmarshal_Marshal_User: "Unmarshal_User (Text (json_User u)) = Inr (u :: 'a::zero User)"
  by (simp add: json_User_def set_User_field_def zero_User_def)

lemma dec_Malfunction_json: "dec_Malfunction (json_Malfunction m) zero_Malfunction = Some (m :: 'a::zero Malfunction)"
  by (simp add: json_Malfunction_def set_Malfunction_field_def zero_Malfunction_def find_field_def)

lemma dec_elements_json: "dec_elements (map json_Malfunction ms) = Some (ms :: 'a::zero Malfunction list)"
  by (induction ms) (simp_all add: dec_Malfunction_json)

lemma Unmarshal_Marshal_Car: "Unmarshal_Car (Text (json_Car c)) = Inr (c :: 'a::zero Car)"
  by (cases "Malfunctions c") (simp_all add: json_Car_def set_Car_field_def zero_Car_def dec_elements_json)

lemma Unmarshal_Car_of_User:
  "Unmarshal_Car (Text (json_User u)) =
     Inr (zero_Car\<lparr>Car.ID := User.ID u, Car.DocType := User.DocType u\<rparr> :: 'a::zero Car)"
  by (simp add: json_User_def set_Car_field_def zero_Car_def)

lemma Unmarshal_User_of_Car:
  "Unmarshal_User (Text (json_Car c)) =
     Inr (zero_User\<lparr>User.ID := Car.ID c, User.DocType := Car.DocType c\<rparr> :: 'a::zero User)"
  by (simp add: json_Car_def set_User_field_def zero_User_def find_field_def User_tags_def lower_def)

section \<open>The stub's calls\<close>

lemma next_fault_world [simp]: "world (snd (next_fault ctx)) = world ctx"
  by (simp add: next_fault_def split: list.splits)

lemma next_fault_rich [simp]: "rich (snd (next_fault ctx)) = rich ctx"
  by (simp add: next_fault_def split: list.splits)

lemma next_fault_no_faults [simp]: "faults ctx = [] \<Longrightarrow> next_fault ctx = (False, ctx)"
  by (simp add: next_fault_def)

lemma GetState_world [simp]: "world (snd (GetState ctx key)) = world ctx"
  by (simp add: GetState_def next_fault_def split: list.splits bool.splits)

lemma GetState_value: "GetState ctx key = (Inr v, ctx') \<Longrightarrow> v = world ctx key"
  by (auto simp: GetState_def next_fault_def split: list.splits bool.splits)

lemma GetState_no_faults [simp]: "faults ctx = [] \<Longrightarrow> GetState ctx key = (Inr (world ctx key), ctx)"
  by (simp add: GetState_def)

lemma PutState_no_faults [simp]:
  "faults ctx = [] \<Longrightarrow> PutState ctx key val = (None, ctx\<lparr>world := (world ctx)(key \<mapsto> val)\<rparr>)"
  by (simp add: PutState_def)

lemma DelState_no_faults [simp]:
  "faults ctx = [] \<Longrightarrow> DelState ctx key = (None, ctx\<lparr>world := (world ctx)(key := None)\<rparr>)"
  by (simp add: DelState_def)

lemma PutState_world:
  "world (snd (PutState ctx key val)) =
     (if fst (PutState ctx key val) = None then (world ctx)(key \<mapsto> val) else world ctx)"
  by (simp add: PutState_def next_fault_def split: list.splits bool.splits)

lemma DelState_world:
  "world (snd (DelState ctx key)) =
     (if fst (DelState ctx key) = None then (world ctx)(key := None) else world ctx)"
  by (simp add: DelState_def next_fault_def split: list.splits bool.splits)

lemma ReadCar_world [simp]: "world (snd (ReadCar ctx key)) = world ctx"
proof -
  have "world (snd (GetState ctx key)) = world ctx" by simp
  then show ?thesis
    by (cases "GetState ctx key") (auto simp: ReadCar_def split: sum.splits option.splits)
qed

lemma ReadUser_world [simp]: "world (snd (ReadUser ctx key)) = world ctx"
proof -
  have "world (snd (GetState ctx key)) = world ctx" by simp
  then show ?thesis
    by (cases "GetState ctx key") (auto simp: ReadUser_def split: sum.splits option.splits)
qed

lemma GetState_cases:
  "GetState ctx key = (r, ctx') \<Longrightarrow>
     world ctx' = world ctx \<and> (r = Inl StubError \<or> r = Inr (world ctx key))"
  by (auto simp: GetState_def next_fault_def split: list.splits bool.splits)

lemma ReadCar_Inr:
  assumes "ReadCar ctx key = (Inr car, ctx')"
  shows "world ctx' = world ctx \<and> (\<exists>b. world ctx key = Some b \<and> Unmarshal_Car b = Inr car)"
proof (cases "GetState ctx key")
  case (Pair r c)
  from GetState_cases [OF Pair] assms Pair show ?thesis
    by (auto simp: ReadCar_def split: sum.splits option.splits)
qed

lemma ReadUser_Inr:
  assumes "ReadUser ctx key = (Inr user, ctx')"
  shows "world ctx' = world ctx \<and> (\<exists>b. world ctx key = Some b \<and> Unmarshal_User b = Inr user)"
proof (cases "GetState ctx key")
  case (Pair r c)
  from GetState_cases [OF Pair] assms Pair show ?thesis
    by (auto simp: ReadUser_def split: sum.splits option.splits)
qed

lemma ReadUser_no_faults:
  "faults ctx = [] \<Longrightarrow> world ctx key = Some b \<Longrightarrow> Unmarshal_User b = Inr user \<Longrightarrow>
     ReadUser ctx key = (Inr user, ctx)"
  by (simp add: ReadUser_def)

lemma ReadCar_no_faults:
  "faults ctx = [] \<Longrightarrow> world ctx key = Some b \<Longrightarrow> Unmarshal_Car b = Inr car \<Longrightarrow>
     ReadCar ctx key = (Inr car, ctx)"
  by (simp add: ReadCar_def)

lemma DeleteAsset_world:
  "world (snd (DeleteAsset ctx key)) =
     (if fst (DeleteAsset ctx key) = None then (world ctx)(key := None) else world ctx)"
proof (cases "GetState ctx key")
  case (Pair r ctx')
  have w: "world ctx' = world ctx" using GetState_world [of ctx key] Pair by simp
  show ?thesis using Pair w DelState_world [of ctx' key]
    by (auto simp: DeleteAsset_def AssetExists_def split: sum.splits)
qed

lemma DeleteAsset_existing:
  "world ctx key \<noteq> None \<Longrightarrow> fst (DeleteAsset ctx key) \<noteq> Some (AssetDoesNotExist key)"
proof (cases "GetState ctx key")
  case (Pair r c)
  assume "world ctx key \<noteq> None"
  with GetState_cases [OF Pair] Pair show ?thesis
    by (auto simp: DeleteAsset_def AssetExists_def DelState_def split: sum.splits prod.splits bool.splits)
qed

lemma DeleteAsset_no_faults:
  "faults ctx = [] \<Longrightarrow> world ctx key \<noteq> None \<Longrightarrow>
     DeleteAsset ctx key = (None, ctx\<lparr>world := (world ctx)(key := None)\<rparr>)"
  by (simp add: DeleteAsset_def AssetExists_def)

section \<open>Evaluation\<close>

text \<open>
  The facts a run on a concrete ledger unfolds.  A document a handler wrote stays in the
  form \<open>Text (json_User u)\<close> or \<open>Text (json_Car c)\<close> and is read back by the round-trip
  lemmas.
\<close>

lemmas run_defs =
  empty_stub_def seeded_def InitLedger_def seed_users_def seed_cars_def
  next_fault_def GetState_def PutState_def DelState_def GetQueryResult_def
  Marshal_User_def Marshal_Car_def Unmarshal_Marshal_User Unmarshal_Marshal_Car
  Unmarshal_Car_of_User Unmarshal_User_of_Car elems_def append_slice_def
  ReadCar_def ReadUser_def AssetExists_def DeleteAsset_def AddMalfunction_def
  BuyCar_def FixCar_def ChangeColor_def sum_prices_def carTotalPrice_def

lemmas obs_defs = balance_of_def owner_of_def malfunctions_of_def

section \<open>Sums of prices\<close>

text \<open>
  Where addition is associative, the loop's sum is the start value plus the sum of the
  list.  Where the order is a partial order compatible with a group, and the malfunction
  prices do not sum below 0, the price a sale past the acknowledgement check is made at
  is the spec's effective price: the car's price less the malfunction prices when the
  malfunctions are acknowledged, and the car's price otherwise.
\<close>

lemma foldl_prices:
  fixes acc :: "'a::monoid_add"
  shows "foldl (\<lambda>t mf. t + Malfunction.Price mf) acc ms = acc + sum_list (map Malfunction.Price ms)"
  by (induction ms arbitrary: acc) (simp_all add: add.assoc)

lemma sum_prices_sum_list:
  fixes acc :: "'a::monoid_add"
  shows "sum_prices acc ms = acc + sum_list (map Malfunction.Price (elems ms))"
  by (simp add: sum_prices_def foldl_prices)

lemma carTotalPrice_effective:
  fixes car :: "'a::ordered_ab_group_add Car"
  assumes "0 \<le> sum_prices 0 (Malfunctions car)"
    and "\<not> (0 < sum_prices 0 (Malfunctions car) \<and> \<not> flag)"
  shows "carTotalPrice car =
           (if flag then Car.Price car - sum_list (map Malfunction.Price (elems (Malfunctions car)))
            else Car.Price car)"
proof (cases "0 < sum_prices 0 (Malfunctions car)")
  case True
  with assms(2) show ?thesis by (simp add: carTotalPrice_def sum_prices_sum_list)
next
  case False
  with assms(1) have "sum_prices 0 (Malfunctions car) = 0" by (simp add: less_le)
  then show ?thesis by (simp add: carTotalPrice_def sum_prices_sum_list)
qed

section \<open>AddMalfunction\<close>

text \<open>
  Claim C7, as amended.  An \<open>AddMalfunction\<close> call with \<open>price \<le> 0\<close> leaves the world
  state as it was and returns an error.  The car is read before the price is looked at
  (lines 92-100): the error is the one of \<open>ReadCar\<close> when the car cannot be read (absent,
  not decodable, read failure), and the price error \<open>PriceZeroOrLower\<close>, the spec's
  ValidationError, only when the car was read.
\<close>

theorem AddMalfunction_price_not_positive:
  fixes price :: "'a::{zero,plus,ord}"
  assumes "price \<le> 0"
  shows "world (snd (AddMalfunction ctx id' description price)) = world ctx \<and>
         fst (AddMalfunction ctx id' description price) =
           (case fst (ReadCar ctx id') of
              Inl err \<Rightarrow> Some err
            | Inr car \<Rightarrow> Some PriceZeroOrLower)"
proof (cases "ReadCar ctx id'")
  case (Pair r ctx')
  have "world ctx' = world ctx" using ReadCar_world [of ctx id'] Pair by simp
  with Pair assms show ?thesis
    by (simp add: AddMalfunction_def split: sum.splits)
qed

text \<open>
  On the seeded ledger, \<open>AddMalfunction car1 "Flat tires" -850\<close> is refused with the
  price error.
\<close>

theorem AddMalfunction_price_not_positive_witness:
  "(- 850 :: int) \<le> 0 \<and>
   world (snd (AddMalfunction seeded ''car1'' ''Flat tires'' (- 850))) = world seeded \<and>
   fst (AddMalfunction seeded ''car1'' ''Flat tires'' (- 850)) = Some PriceZeroOrLower"
proof -
  have h: "(- 850 :: int) \<le> 0" by simp
  have r: "fst (ReadCar seeded ''car1'') =
             Inr \<lparr>Car.ID = ''car1'', Car.DocType = ''car'', Brand = ''Ferrari'', Model = ''F40'',
                  Year = ''1990'', Color = ''Red'', Owner = ''user1'', Car.Price = 5000,
                  Malfunctions = Some []\<rparr>"
    by (simp add: run_defs)
  from AddMalfunction_price_not_positive [OF h, of seeded "''car1''" "''Flat tires''"] r h
  show ?thesis by simp
qed

text \<open>
  Claim C7 as stated fails where the car is missing: with a price of \<open>-850\<close> for the
  key \<open>car7\<close>, which the seeded ledger does not have, the error is that the car does not
  exist (the spec's NotFound), not the price error.
\<close>

theorem AddMalfunction_missing_car_counterexample:
  "(- 850 :: int) \<le> 0 \<and>
   fst (AddMalfunction seeded ''car7'' ''Flat tires'' (- 850)) = Some (CarDoesNotExist ''car7'') \<and>
   fst (AddMalfunction seeded ''car7'' ''Flat tires'' (- 850)) \<noteq> Some PriceZeroOrLower"
  by (simp add: run_defs)






section \<open>BuyCar\<close>

text \<open>
  What \<open>BuyCar\<close> does for two different users, each stored under its own \<open>ID\<close>, and a
  car stored under a third key, when the stub does not fail in the writes: the old owner
  is credited and the new owner debited by \<open>carTotalPrice\<close>, and the car changes hands.
  In a group the two balances add up to what they added up to before.
\<close>

lemma BuyCar_distinct_parties:
  fixes ctx :: "'a::{zero,plus,minus,ord} stub"
  assumes rc: "ReadCar ctx id' = (Inr car, c1)"
    and ro: "ReadUser c1 (Owner car) = (Inr oldUSer, c2)"
    and rn: "ReadUser c2 newOwner = (Inr newUser, c3)"
    and ack: "\<not> (0 < sum_prices 0 (Malfunctions car) \<and> \<not> flag)"
    and funds: "\<not> Balance newUser < carTotalPrice car"
    and nf: "faults c3 = []"
    and stored: "User.ID oldUSer = Owner car"
    and other: "Owner car \<noteq> newOwner"
    and keys: "id' \<noteq> Owner car" "id' \<noteq> newOwner"
  shows "fst (BuyCar ctx id' newOwner flag) = None \<and>
         fst (ReadUser (snd (BuyCar ctx id' newOwner flag)) (Owner car)) =
           Inr (oldUSer\<lparr>Balance := Balance oldUSer + carTotalPrice car\<rparr>) \<and>
         fst (ReadUser (snd (BuyCar ctx id' newOwner flag)) newOwner) =
           Inr (newUser\<lparr>Balance := Balance newUser - carTotalPrice car\<rparr>) \<and>
         fst (ReadCar (snd (BuyCar ctx id' newOwner flag)) id') = Inr (car\<lparr>Owner := newOwner\<rparr>)"
proof -
  let ?old = "oldUSer\<lparr>Balance := Balance oldUSer + carTotalPrice car\<rparr>"
  let ?new = "newUser\<lparr>Balance := Balance newUser - carTotalPrice car\<rparr>"
  let ?car = "car\<lparr>Owner := newOwner\<rparr>"
  let ?c6 = "c3\<lparr>world := (world c3)(Owner car \<mapsto> Text (json_User ?old),
                 newOwner \<mapsto> Text (json_User ?new), id' \<mapsto> Text (json_Car ?car))\<rparr>"
  have price:
    "(if sum_prices 0 (Malfunctions car) > 0
      then (if flag then Inr (Car.Price car - sum_prices 0 (Malfunctions car))
            else Inl PurchaseCanceled)
      else Inr (Car.Price car)) = (Inr (carTotalPrice car) :: error + 'a)"
    using ack by (simp add: carTotalPrice_def)
  have run: "BuyCar ctx id' newOwner flag = (None, ?c6)"
    using rc ro rn ack funds nf stored
    by (simp add: BuyCar_def price Marshal_User_def Marshal_Car_def Let_def)
  have a: "ReadUser ?c6 (Owner car) = (Inr ?old, ?c6)"
    by (rule ReadUser_no_faults [where b = "Text (json_User ?old)"])
       (use nf other keys in \<open>simp_all add: Unmarshal_Marshal_User\<close>)
  have b: "ReadUser ?c6 newOwner = (Inr ?new, ?c6)"
    by (rule ReadUser_no_faults [where b = "Text (json_User ?new)"])
       (use nf other keys in \<open>simp_all add: Unmarshal_Marshal_User\<close>)
  have c: "ReadCar ?c6 id' = (Inr ?car, ?c6)"
    by (rule ReadCar_no_faults [where b = "Text (json_Car ?car)"])
       (use nf in \<open>simp_all add: Unmarshal_Marshal_Car\<close>)
  from run a b c show ?thesis by simp
qed

lemma BuyCar_conserves:
  fixes oldUSer :: "'a::ab_group_add User"
  shows "Balance (oldUSer\<lparr>Balance := Balance oldUSer + p\<rparr>) +
         Balance (newUser\<lparr>Balance := Balance newUser - p\<rparr>) = Balance oldUSer + Balance newUser"
  by simp

text \<open>
  Claim C5.  When the car, its owner and the new owner are read, the malfunction prices
  sum to more than 0 and the flag is false, \<open>BuyCar\<close> returns the cancellation error
  \<open>PurchaseCanceled\<close> and the world state is the one before the call: no record of it
  has changed.
\<close>

theorem BuyCar_unacknowledged:
  fixes ctx :: "'a::{zero,plus,minus,ord} stub"
  assumes "ReadCar ctx id' = (Inr car, c1)"
    and "ReadUser c1 (Owner car) = (Inr oldUSer, c2)"
    and "ReadUser c2 newOwner = (Inr newUser, c3)"
    and "0 < sum_prices 0 (Malfunctions car)"
  shows "BuyCar ctx id' newOwner False = (Some PurchaseCanceled, c3) \<and> world c3 = world ctx"
proof -
  have "world c3 = world ctx"
    using ReadCar_Inr [OF assms(1)] ReadUser_Inr [OF assms(2)] ReadUser_Inr [OF assms(3)] by simp
  then show ?thesis using assms by (simp add: BuyCar_def)
qed

text \<open>
  The spec's scenario: \<open>car5\<close> with malfunctions of 5000 and 1500 is not sold to \<open>user1\<close>
  without acknowledgement, and the ledger stays as it is.
\<close>

lemma damaged_world_car5:
  "world damaged ''car5'' = Some (Text (json_Car
       \<lparr>Car.ID = ''car5'', Car.DocType = ''car'', Brand = ''Tesla'', Model = ''S'',
         Year = ''2019'', Color = ''White'', Owner = ''user2'', Car.Price = 9000,
         Malfunctions = Some [\<lparr>Malfunction.Description = ''Broken windshields'',
                                Malfunction.Price = 5000\<rparr>,
                              \<lparr>Malfunction.Description = ''Charging issues'',
                                Malfunction.Price = 1500\<rparr>]\<rparr>))"
  by (simp add: damaged_def run_defs)

theorem BuyCar_unacknowledged_witness:
  "BuyCar damaged ''car5'' ''user1'' False = (Some PurchaseCanceled, damaged)"
proof -
  let ?car = "\<lparr>Car.ID = ''car5'', Car.DocType = ''car'', Brand = ''Tesla'', Model = ''S'',
         Year = ''2019'', Color = ''White'', Owner = ''user2'', Car.Price = 9000 :: int,
         Malfunctions = Some [\<lparr>Malfunction.Description = ''Broken windshields'',
                                Malfunction.Price = 5000\<rparr>,
                              \<lparr>Malfunction.Description = ''Charging issues'',
                                Malfunction.Price = 1500\<rparr>]\<rparr>"
  let ?u2 = "\<lparr>User.ID = ''user2'', User.DocType = ''user'', FirstName = ''Petar'',
        LastName = ''Petrovic'', Email = ''petar@jahu.com'', Balance = 3500 :: int\<rparr>"
  let ?u1 = "\<lparr>User.ID = ''user1'', User.DocType = ''user'', FirstName = ''Marko'',
        LastName = ''Markovic'', Email = ''marko@gugl.com'', Balance = 9000 :: int\<rparr>"
  have f: "faults damaged = []" by (simp add: damaged_def run_defs)
  have u2: "world damaged ''user2'' = Some (Text (json_User ?u2))" by (simp add: damaged_def run_defs)
  have u1: "world damaged ''user1'' = Some (Text (json_User ?u1))" by (simp add: damaged_def run_defs)
  have r: "ReadCar damaged ''car5'' = (Inr ?car, damaged)"
    by (rule ReadCar_no_faults [OF f damaged_world_car5 Unmarshal_Marshal_Car])
  have o: "ReadUser damaged (Owner ?car) = (Inr ?u2, damaged)"
    using ReadUser_no_faults [OF f u2 Unmarshal_Marshal_User] by simp
  have n: "ReadUser damaged ''user1'' = (Inr ?u1, damaged)"
    by (rule ReadUser_no_faults [OF f u1 Unmarshal_Marshal_User])
  have m: "0 < sum_prices 0 (Malfunctions ?car)" by (simp add: sum_prices_def elems_def)
  from BuyCar_unacknowledged [OF r o n m] show ?thesis by simp
qed



text \<open>
  Claim C2 at a sale to the current owner.  \<open>user1\<close> owns \<open>car3\<close>, priced 7000, and has
  9000.  \<open>BuyCar car3 user1 false\<close> succeeds and leaves \<open>user1\<close>, the old owner, with
  2000, where the claim has 9000 + 7000.
\<close>

theorem BuyCar_self_purchase_old_owner:
  "owner_of seeded ''car3'' = Some ''user1'' \<and>
   balance_of seeded ''user1'' = Some 9000 \<and>
   fst (BuyCar seeded ''car3'' ''user1'' False) = None \<and>
   owner_of (snd (BuyCar seeded ''car3'' ''user1'' False)) ''car3'' = Some ''user1'' \<and>
   balance_of (snd (BuyCar seeded ''car3'' ''user1'' False)) ''user1'' = Some 2000"
  by (simp add: obs_defs run_defs)

text \<open>
  The same sale seen over all users: the three users hold 16500 before
  \<open>BuyCar car1 user1 false\<close> and 11500 after it.  The 5000 debited from \<open>user1\<close> are
  credited to nobody.
\<close>

theorem BuyCar_self_purchase_total:
  "map (balance_of seeded) [''user1'', ''user2'', ''user3''] = [Some 9000, Some 3500, Some 4000] \<and>
   fst (BuyCar seeded ''car1'' ''user1'' False) = None \<and>
   map (balance_of (snd (BuyCar seeded ''car1'' ''user1'' False))) [''user1'', ''user2'', ''user3''] =
     [Some 4000, Some 3500, Some 4000]"
  by (simp add: obs_defs run_defs)

section \<open>FixCar\<close>

text \<open>
  What \<open>FixCar\<close> does for an owner other than \<open>user3\<close>, owner and mechanic each stored
  under its own \<open>ID\<close>, and a car stored under a third key, when the stub does not fail in
  the writes: the owner pays the sum of the malfunction prices to \<open>user3\<close>, and the car's
  list is emptied.
\<close>

lemma FixCar_distinct_parties:
  fixes ctx :: "'a::{zero,plus,minus,ord} stub"
  assumes rc: "ReadCar ctx id' = (Inr car, c1)"
    and ro: "ReadUser c1 (Owner car) = (Inr owner, c2)"
    and rm: "ReadUser c2 ''user3'' = (Inr mechanic, c3)"
    and funds: "\<not> Balance owner < sum_prices 0 (Malfunctions car)"
    and nf: "faults c3 = []"
    and stored: "User.ID owner = Owner car" "User.ID mechanic = ''user3''"
    and other: "Owner car \<noteq> ''user3''"
    and keys: "id' \<noteq> Owner car" "id' \<noteq> ''user3''"
  shows "fst (FixCar ctx id') = None \<and>
         fst (ReadUser (snd (FixCar ctx id')) (Owner car)) =
           Inr (owner\<lparr>Balance := Balance owner - sum_prices 0 (Malfunctions car)\<rparr>) \<and>
         fst (ReadUser (snd (FixCar ctx id')) ''user3'') =
           Inr (mechanic\<lparr>Balance := Balance mechanic + sum_prices 0 (Malfunctions car)\<rparr>) \<and>
         fst (ReadCar (snd (FixCar ctx id')) id') = Inr (car\<lparr>Malfunctions := Some []\<rparr>)"
proof -
  let ?p = "sum_prices 0 (Malfunctions car)"
  let ?owner = "owner\<lparr>Balance := Balance owner - ?p\<rparr>"
  let ?mech = "mechanic\<lparr>Balance := Balance mechanic + ?p\<rparr>"
  let ?car = "car\<lparr>Malfunctions := Some []\<rparr>"
  let ?c6 = "c3\<lparr>world := (world c3)(Owner car \<mapsto> Text (json_User ?owner),
                 ''user3'' \<mapsto> Text (json_User ?mech), id' \<mapsto> Text (json_Car ?car))\<rparr>"
  have run: "FixCar ctx id' = (None, ?c6)"
    using rc ro rm funds nf stored
    by (simp add: FixCar_def Marshal_User_def Marshal_Car_def Let_def)
  have a: "ReadUser ?c6 (Owner car) = (Inr ?owner, ?c6)"
    by (rule ReadUser_no_faults [where b = "Text (json_User ?owner)"])
       (use nf other keys in \<open>simp_all add: Unmarshal_Marshal_User\<close>)
  have b: "ReadUser ?c6 ''user3'' = (Inr ?mech, ?c6)"
    by (rule ReadUser_no_faults [where b = "Text (json_User ?mech)"])
       (use nf other keys in \<open>simp_all add: Unmarshal_Marshal_User\<close>)
  have c: "ReadCar ?c6 id' = (Inr ?car, ?c6)"
    by (rule ReadCar_no_faults [where b = "Text (json_Car ?car)"])
       (use nf in \<open>simp_all add: Unmarshal_Marshal_Car\<close>)
  from run a b c show ?thesis by simp
qed

text \<open>
  Claim C6 at a repair of the mechanic's own car.  In \<open>own_repair\<close> the user \<open>user3\<close>
  owns \<open>car1\<close>, which has one malfunction of 850, and has 8000.  \<open>FixCar car1\<close> succeeds
  and empties the list, and \<open>user3\<close>, owner and mechanic at once, has 8850 afterwards:
  the write of line 313 is overwritten by the write of line 319.
\<close>

theorem FixCar_own_car:
  "owner_of own_repair ''car1'' = Some ''user3'' \<and>
   malfunctions_of own_repair ''car1'' =
     Some [\<lparr>Malfunction.Description = ''Flat tires'', Malfunction.Price = 850\<rparr>] \<and>
   balance_of own_repair ''user3'' = Some 8000 \<and>
   fst (FixCar own_repair ''car1'') = None \<and>
   malfunctions_of (snd (FixCar own_repair ''car1'')) ''car1'' = Some [] \<and>
   balance_of (snd (FixCar own_repair ''car1'')) ''user3'' = Some 8850"
  by (simp add: obs_defs own_repair_def run_defs)

section \<open>The keys a handler writes\<close>

text \<open>
  A handler changes the world state only at the keys it writes or deletes.  The reads and
  the queries write nothing; \<open>AddMalfunction\<close> and \<open>DeleteAsset\<close> touch the key \<open>id\<close>
  only; \<open>ChangeColor\<close> writes the key \<open>car.ID\<close> of the car it read; \<open>InitLedger\<close> writes
  the nine keys of its seed; \<open>BuyCar\<close> writes \<open>oldUSer.ID\<close>, \<open>newOwner\<close> and \<open>id\<close>;
  \<open>FixCar\<close> writes \<open>owner.ID\<close>, \<open>mechanic.ID\<close> and \<open>id\<close>.
\<close>

lemma PutState_frame: "key \<noteq> k \<Longrightarrow> world (snd (PutState ctx k v)) key = world ctx key"
  by (simp add: PutState_world)

lemma AssetExists_world [simp]: "world (snd (AssetExists ctx key)) = world ctx"
proof (cases "GetState ctx key")
  case (Pair r c)
  from GetState_cases [OF Pair] Pair show ?thesis
    by (auto simp: AssetExists_def)
qed

lemma GetQueryResult_world [simp]: "world (snd (GetQueryResult ctx q)) = world ctx"
  by (simp add: GetQueryResult_def next_fault_def split: list.splits bool.splits)

lemma QueryAssets_world [simp]: "world (snd (QueryAssets ctx q)) = world ctx"
proof (cases "GetQueryResult ctx q")
  case (Pair r c)
  have "world c = world ctx" using GetQueryResult_world [of ctx q] Pair by simp
  with Pair show ?thesis
    by (simp add: QueryAssets_def getQueryResultForQueryString_def split: sum.splits)
qed

lemma DeleteAsset_frame: "key \<noteq> id' \<Longrightarrow> world (snd (DeleteAsset ctx id')) key = world ctx key"
  by (simp add: DeleteAsset_world)

lemma AddMalfunction_frame:
  fixes ctx :: "'a::{zero,plus,ord} stub"
  assumes "key \<noteq> id'"
  shows "world (snd (AddMalfunction ctx id' description price)) key = world ctx key"
proof (cases "ReadCar ctx id'")
  case (Pair r c1)
  have w: "world c1 = world ctx" using ReadCar_world [of ctx id'] Pair by simp
  show ?thesis
    using Pair w assms DeleteAsset_frame [of key id' c1]
    by (auto simp: AddMalfunction_def Marshal_Car_def Let_def PutState_world split: sum.splits)
qed

lemma ChangeColor_frame:
  fixes ctx :: "'a::zero stub"
  assumes "\<forall>car. fst (ReadCar ctx id') = Inr car \<longrightarrow> Car.ID car \<noteq> key"
  shows "world (snd (ChangeColor ctx id' color)) key = world ctx key"
proof (cases "ReadCar ctx id'")
  case (Pair r c1)
  have w: "world c1 = world ctx" using ReadCar_world [of ctx id'] Pair by simp
  show ?thesis
    using Pair w assms
    by (auto simp: ChangeColor_def Marshal_Car_def Let_def PutState_world split: sum.splits)
qed

lemma put_users_frame:
  "key \<notin> set (map User.ID users) \<Longrightarrow> world (snd (put_users ctx users)) key = world ctx key"
proof (induction users arbitrary: ctx)
  case Nil
  then show ?case by simp
next
  case (Cons user users)
  show ?case
  proof (cases "PutState ctx (User.ID user) (Text (json_User user))")
    case (Pair r c)
    have "world c key = world ctx key"
      using PutState_frame [of key "User.ID user" ctx "Text (json_User user)"] Pair Cons.prems by simp
    with Pair Cons show ?thesis
      by (cases r) (simp_all add: Marshal_User_def)
  qed
qed

lemma put_cars_frame:
  "key \<notin> set (map Car.ID cars) \<Longrightarrow> world (snd (put_cars ctx cars)) key = world ctx key"
proof (induction cars arbitrary: ctx)
  case Nil
  then show ?case by simp
next
  case (Cons car cars)
  show ?case
  proof (cases "PutState ctx (Car.ID car) (Text (json_Car car))")
    case (Pair r c)
    have "world c key = world ctx key"
      using PutState_frame [of key "Car.ID car" ctx "Text (json_Car car)"] Pair Cons.prems by simp
    with Pair Cons show ?thesis
      by (cases r) (simp_all add: Marshal_Car_def)
  qed
qed

lemma InitLedger_frame:
  fixes ctx :: "'a::numeral stub"
  assumes "key \<notin> {''user1'', ''user2'', ''user3'', ''car1'', ''car2'', ''car3'', ''car4'', ''car5'', ''car6''}"
  shows "world (snd (InitLedger ctx)) key = world ctx key"
proof (cases "put_users ctx (seed_users :: 'a User list)")
  case (Pair r c)
  have u: "key \<notin> set (map User.ID (seed_users :: 'a User list))"
    using assms by (simp add: seed_users_def)
  have k: "key \<notin> set (map Car.ID (seed_cars :: 'a Car list))"
    using assms by (simp add: seed_cars_def)
  have "world c key = world ctx key" using put_users_frame [OF u, of ctx] Pair by simp
  with Pair put_cars_frame [OF k, of c] show ?thesis
    by (cases r) (simp_all add: InitLedger_def)
qed

lemma BuyCar_frame:
  fixes ctx :: "'a::{zero,plus,minus,ord} stub"
  assumes "key \<noteq> id'" and "key \<noteq> newOwner"
    and "\<forall>car. fst (ReadCar ctx id') = Inr car \<longrightarrow>
           (\<forall>oldUSer. fst (ReadUser (snd (ReadCar ctx id')) (Owner car)) = Inr oldUSer \<longrightarrow>
              User.ID oldUSer \<noteq> key)"
  shows "world (snd (BuyCar ctx id' newOwner flag)) key = world ctx key"
proof (cases "ReadCar ctx id'")
  case rc: (Pair r1 c1)
  have w1: "world c1 = world ctx" using ReadCar_world [of ctx id'] rc by simp
  show ?thesis
  proof (cases r1)
    case (Inl err)
    with rc w1 show ?thesis by (simp add: BuyCar_def)
  next
    case car: (Inr car)
    show ?thesis
    proof (cases "ReadUser c1 (Owner car)")
      case ro: (Pair r2 c2)
      have w2: "world c2 = world ctx" using ReadUser_world [of c1 "Owner car"] ro w1 by simp
      show ?thesis
      proof (cases r2)
        case (Inl err)
        with rc car ro w2 show ?thesis by (simp add: BuyCar_def)
      next
        case old: (Inr oldUSer)
        from assms(3) rc car ro old have k: "User.ID oldUSer \<noteq> key" by simp
        show ?thesis
        proof (cases "ReadUser c2 newOwner")
          case rn: (Pair r3 c3)
          have w3: "world c3 = world ctx" using ReadUser_world [of c2 newOwner] rn w2 by simp
          show ?thesis
            using rc car ro old rn w3 k assms(1,2)
            by (cases r3)
               (simp_all add: BuyCar_def Marshal_User_def Marshal_Car_def Let_def PutState_world
                  split: sum.splits)
        qed
      qed
    qed
  qed
qed

lemma ReadCar_stored:
  "fst (ReadCar ctx key) = Inr car \<Longrightarrow> stored_car ctx key = Some car"
  using ReadCar_Inr [of ctx key car "snd (ReadCar ctx key)"]
  by (cases "ReadCar ctx key") (auto simp: stored_car_def)

lemma ReadUser_stored:
  "fst (ReadUser ctx key) = Inr user \<Longrightarrow> stored_user ctx key = Some user"
  using ReadUser_Inr [of ctx key user "snd (ReadUser ctx key)"]
  by (cases "ReadUser ctx key") (auto simp: stored_user_def)

lemma stored_car_read:
  "faults ctx = [] \<Longrightarrow> stored_car ctx key = Some car \<Longrightarrow> ReadCar ctx key = (Inr car, ctx)"
  by (auto simp: stored_car_def ReadCar_def split: option.splits sum.splits)

lemma stored_user_read:
  "faults ctx = [] \<Longrightarrow> stored_user ctx key = Some user \<Longrightarrow> ReadUser ctx key = (Inr user, ctx)"
  by (auto simp: stored_user_def ReadUser_def split: option.splits sum.splits)

lemma stored_user_cong: "world c = world ctx \<Longrightarrow> stored_user c key = stored_user ctx key"
  by (simp add: stored_user_def)

lemma stored_car_cong: "world c = world ctx \<Longrightarrow> stored_car c key = stored_car ctx key"
  by (simp add: stored_car_def)

lemma ChangeColor_frame':
  fixes ctx :: "'a::zero stub"
  assumes "\<forall>car. stored_car ctx id' = Some car \<longrightarrow> Car.ID car \<noteq> key"
  shows "world (snd (ChangeColor ctx id' color)) key = world ctx key"
  using assms by (intro ChangeColor_frame) (auto dest: ReadCar_stored)

lemma BuyCar_frame':
  fixes ctx :: "'a::{zero,plus,minus,ord} stub"
  assumes "key \<noteq> id'" and "key \<noteq> newOwner"
    and "\<forall>car oldUSer. stored_car ctx id' = Some car \<longrightarrow>
           stored_user ctx (Owner car) = Some oldUSer \<longrightarrow> User.ID oldUSer \<noteq> key"
  shows "world (snd (BuyCar ctx id' newOwner flag)) key = world ctx key"
proof (rule BuyCar_frame [OF assms(1,2)], intro allI impI)
  fix car oldUSer
  assume c: "fst (ReadCar ctx id') = Inr car"
    and u: "fst (ReadUser (snd (ReadCar ctx id')) (Owner car)) = Inr oldUSer"
  have "stored_user (snd (ReadCar ctx id')) (Owner car) = stored_user ctx (Owner car)"
    by (rule stored_user_cong) simp
  with ReadUser_stored [OF u] ReadCar_stored [OF c] assms(3) show "User.ID oldUSer \<noteq> key"
    by auto
qed

lemma FixCar_frame:
  fixes ctx :: "'a::{zero,plus,minus,ord} stub"
  assumes "key \<noteq> id'"
    and "\<forall>car owner. stored_car ctx id' = Some car \<longrightarrow>
           stored_user ctx (Owner car) = Some owner \<longrightarrow> User.ID owner \<noteq> key"
    and "\<forall>mechanic. stored_user ctx ''user3'' = Some mechanic \<longrightarrow> User.ID mechanic \<noteq> key"
  shows "world (snd (FixCar ctx id')) key = world ctx key"
proof (cases "ReadCar ctx id'")
  case rc: (Pair r1 c1)
  have w1: "world c1 = world ctx" using ReadCar_world [of ctx id'] rc by simp
  show ?thesis
  proof (cases r1)
    case (Inl err)
    with rc w1 show ?thesis by (simp add: FixCar_def)
  next
    case car: (Inr car)
    from rc car have sc: "stored_car ctx id' = Some car" by (intro ReadCar_stored) simp
    show ?thesis
    proof (cases "ReadUser c1 (Owner car)")
      case ro: (Pair r2 c2)
      have w2: "world c2 = world ctx" using ReadUser_world [of c1 "Owner car"] ro w1 by simp
      show ?thesis
      proof (cases r2)
        case (Inl err)
        with rc car ro w2 show ?thesis by (simp add: FixCar_def)
      next
        case own: (Inr owner)
        from ro own have "stored_user c1 (Owner car) = Some owner" by (intro ReadUser_stored) simp
        with stored_user_cong [OF w1] have "stored_user ctx (Owner car) = Some owner" by simp
        with assms(2) sc have k: "User.ID owner \<noteq> key" by simp
        show ?thesis
        proof (cases "ReadUser c2 ''user3''")
          case rm: (Pair r3 c3)
          have w3: "world c3 = world ctx" using ReadUser_world [of c2 "''user3''"] rm w2 by simp
          show ?thesis
          proof (cases r3)
            case (Inl err)
            with rc car ro own rm w3 show ?thesis by (simp add: FixCar_def)
          next
            case mech: (Inr mechanic)
            from rm mech have "stored_user c2 ''user3'' = Some mechanic"
              by (intro ReadUser_stored) simp
            with stored_user_cong [OF w2] have "stored_user ctx ''user3'' = Some mechanic" by simp
            with assms(3) have m: "User.ID mechanic \<noteq> key" by simp
            show ?thesis
              using rc car ro own rm mech w3 k m assms(1)
              by (simp add: FixCar_def Marshal_User_def Marshal_Car_def Let_def PutState_world)
          qed
        qed
      qed
    qed
  qed
qed

lemma BuyCar_settles:
  fixes ctx :: "'a::{zero,plus,minus,ord} stub"
  assumes nf: "faults ctx = []"
    and sc: "stored_car ctx id' = Some car"
    and so: "stored_user ctx (Owner car) = Some oldUSer"
    and sn: "stored_user ctx newOwner = Some newUser"
    and ack: "\<not> (0 < sum_prices 0 (Malfunctions car) \<and> \<not> flag)"
    and funds: "\<not> Balance newUser < carTotalPrice car"
    and stored: "User.ID oldUSer = Owner car"
    and other: "Owner car \<noteq> newOwner"
    and keys: "id' \<noteq> Owner car" "id' \<noteq> newOwner"
  shows "fst (BuyCar ctx id' newOwner flag) = None \<and>
         stored_user (snd (BuyCar ctx id' newOwner flag)) (Owner car) =
           Some (oldUSer\<lparr>Balance := Balance oldUSer + carTotalPrice car\<rparr>) \<and>
         stored_user (snd (BuyCar ctx id' newOwner flag)) newOwner =
           Some (newUser\<lparr>Balance := Balance newUser - carTotalPrice car\<rparr>) \<and>
         stored_car (snd (BuyCar ctx id' newOwner flag)) id' = Some (car\<lparr>Owner := newOwner\<rparr>)"
  using BuyCar_distinct_parties [OF stored_car_read [OF nf sc] stored_user_read [OF nf so]
          stored_user_read [OF nf sn] ack funds nf stored other keys]
  by (auto intro: ReadUser_stored ReadCar_stored)

lemma FixCar_settles:
  fixes ctx :: "'a::{zero,plus,minus,ord} stub"
  assumes nf: "faults ctx = []"
    and sc: "stored_car ctx id' = Some car"
    and so: "stored_user ctx (Owner car) = Some owner"
    and sm: "stored_user ctx ''user3'' = Some mechanic"
    and funds: "\<not> Balance owner < sum_prices 0 (Malfunctions car)"
    and stored: "User.ID owner = Owner car" "User.ID mechanic = ''user3''"
    and other: "Owner car \<noteq> ''user3''"
    and keys: "id' \<noteq> Owner car" "id' \<noteq> ''user3''"
  shows "fst (FixCar ctx id') = None \<and>
         stored_user (snd (FixCar ctx id')) (Owner car) =
           Some (owner\<lparr>Balance := Balance owner - sum_prices 0 (Malfunctions car)\<rparr>) \<and>
         stored_user (snd (FixCar ctx id')) ''user3'' =
           Some (mechanic\<lparr>Balance := Balance mechanic + sum_prices 0 (Malfunctions car)\<rparr>) \<and>
         stored_car (snd (FixCar ctx id')) id' = Some (car\<lparr>Malfunctions := Some []\<rparr>)"
  using FixCar_distinct_parties [OF stored_car_read [OF nf sc] stored_user_read [OF nf so]
          stored_user_read [OF nf sm] funds nf stored other keys]
  by (auto intro: ReadUser_stored ReadCar_stored)

section \<open>Balances\<close>


text \<open>
  On the seeded ledger: writing off \<open>car6\<close> or repainting \<open>car1\<close> leaves the records of
  \<open>user2\<close> and \<open>user1\<close> alone; seeding again leaves a key outside the seed alone; the
  sale of \<open>car5\<close> to \<open>user1\<close> leaves \<open>user3\<close> alone, takes 9000 from \<open>user1\<close> and gives
  them to \<open>user2\<close>; the repair of \<open>car1\<close> leaves \<open>user2\<close> alone, takes 850 from \<open>user1\<close>
  and gives them to \<open>user3\<close>.
\<close>

lemma seeded_faults: "faults seeded = []"
  by (simp add: run_defs)

lemma seeded_car1:
  "stored_car seeded ''car1'' =
     Some \<lparr>Car.ID = ''car1'', Car.DocType = ''car'', Brand = ''Ferrari'', Model = ''F40'',
        Year = ''1990'', Color = ''Red'', Owner = ''user1'', Car.Price = 5000,
        Malfunctions = Some []\<rparr>"
  by (simp add: stored_car_def run_defs)

lemma seeded_car5:
  "stored_car seeded ''car5'' =
     Some \<lparr>Car.ID = ''car5'', Car.DocType = ''car'', Brand = ''Tesla'', Model = ''S'',
        Year = ''2019'', Color = ''White'', Owner = ''user2'', Car.Price = 9000,
        Malfunctions = Some []\<rparr>"
  by (simp add: stored_car_def run_defs)

lemma seeded_user1:
  "stored_user seeded ''user1'' =
     Some \<lparr>User.ID = ''user1'', User.DocType = ''user'', FirstName = ''Marko'',
        LastName = ''Markovic'', Email = ''marko@gugl.com'', Balance = 9000\<rparr>"
  by (simp add: stored_user_def run_defs)

lemma seeded_user2:
  "stored_user seeded ''user2'' =
     Some \<lparr>User.ID = ''user2'', User.DocType = ''user'', FirstName = ''Petar'',
        LastName = ''Petrovic'', Email = ''petar@jahu.com'', Balance = 3500\<rparr>"
  by (simp add: stored_user_def run_defs)

lemma flat_tires_faults: "faults flat_tires = []"
  by (simp add: flat_tires_def run_defs)

lemma flat_tires_car1:
  "stored_car flat_tires ''car1'' =
     Some \<lparr>Car.ID = ''car1'', Car.DocType = ''car'', Brand = ''Ferrari'', Model = ''F40'',
        Year = ''1990'', Color = ''Red'', Owner = ''user1'', Car.Price = 5000,
        Malfunctions = Some [\<lparr>Malfunction.Description = ''Flat tires'',
                               Malfunction.Price = 850\<rparr>]\<rparr>"
  by (simp add: stored_car_def flat_tires_def run_defs)

lemma flat_tires_user1:
  "stored_user flat_tires ''user1'' =
     Some \<lparr>User.ID = ''user1'', User.DocType = ''user'', FirstName = ''Marko'',
        LastName = ''Markovic'', Email = ''marko@gugl.com'', Balance = 9000\<rparr>"
  by (simp add: stored_user_def flat_tires_def run_defs)

lemma flat_tires_user3:
  "stored_user flat_tires ''user3'' =
     Some \<lparr>User.ID = ''user3'', User.DocType = ''user'', FirstName = ''Nikola'',
        LastName = ''Nikolic'', Email = ''nikola@bing.com'', Balance = 4000\<rparr>"
  by (simp add: stored_user_def flat_tires_def run_defs)



section \<open>Failing writes\<close>

text \<open>
  Claim C8 at a failing write.  The fourth call of the stub in \<open>BuyCar\<close> is the write of
  the old owner (line 260).  When it fails, \<open>BuyCar car5 user1 false\<close> on the seeded
  ledger still returns \<open>nil\<close>: \<open>user2\<close> keeps its balance and \<open>user1\<close> has paid 9000.
  The fifth call of the stub in \<open>FixCar\<close> is the write of the mechanic (line 319).
  When it fails, \<open>FixCar car1\<close> still returns \<open>nil\<close>: \<open>user3\<close> keeps its balance and
  \<open>user1\<close> has paid 850.
\<close>

theorem BuyCar_FixCar_dropped_write_error:
  "balance_of seeded ''user2'' = Some 3500 \<and> balance_of flat_tires ''user3'' = Some 4000 \<and>
   fst (BuyCar (seeded\<lparr>faults := [False, False, False, True]\<rparr>) ''car5'' ''user1'' False) = None \<and>
   balance_of (snd (BuyCar (seeded\<lparr>faults := [False, False, False, True]\<rparr>) ''car5'' ''user1'' False))
     ''user2'' = Some 3500 \<and>
   balance_of (snd (BuyCar (seeded\<lparr>faults := [False, False, False, True]\<rparr>) ''car5'' ''user1'' False))
     ''user1'' = Some 0 \<and>
   fst (FixCar (flat_tires\<lparr>faults := [False, False, False, False, True]\<rparr>) ''car1'') = None \<and>
   balance_of (snd (FixCar (flat_tires\<lparr>faults := [False, False, False, False, True]\<rparr>) ''car1''))
     ''user3'' = Some 4000 \<and>
   balance_of (snd (FixCar (flat_tires\<lparr>faults := [False, False, False, False, True]\<rparr>) ''car1''))
     ''user1'' = Some 8150"
  by (simp add: obs_defs flat_tires_def run_defs)

section \<open>Queries\<close>

text \<open>
  The loop of \<open>constructQueryResponseFromIterator\<close>: when every turn gives a car, the
  result is the cars in the iterator's order; when some turn gives an error, the result
  is an error.
\<close>

lemma collect_cars_all:
  "\<forall>r\<in>set it. \<exists>car. next_car r = Inr car \<Longrightarrow>
     collect_cars cars it = Inr (cars @ map (projr \<circ> next_car) it)"
proof (induction it arbitrary: cars)
  case Nil
  then show ?case by simp
next
  case (Cons r it)
  then obtain car where c: "next_car r = Inr car" by auto
  then obtain queryResult where r: "r = Inr queryResult" and u: "Unmarshal_Car (snd queryResult) = Inr car"
    by (cases r) (auto simp: next_car_def)
  from Cons have "collect_cars (cars @ [car]) it = Inr ((cars @ [car]) @ map (projr \<circ> next_car) it)"
    by simp
  with r u c show ?case by simp
qed

lemma collect_cars_failure:
  "\<exists>r\<in>set it. \<exists>err. next_car r = Inl err \<Longrightarrow> \<exists>err. collect_cars cars it = Inl err"
proof (induction it arbitrary: cars)
  case Nil
  then show ?case by simp
next
  case (Cons r it)
  show ?case
  proof (cases r)
    case (Inl err)
    then show ?thesis by simp
  next
    case (Inr queryResult)
    show ?thesis
    proof (cases "Unmarshal_Car (snd queryResult)")
      case (Inl err)
      with Inr show ?thesis by simp
    next
      case u: (Inr car)
      with Inr Cons.prems have "\<exists>r\<in>set it. \<exists>err. next_car r = Inl err"
        by (auto simp: next_car_def)
      from Cons.IH [OF this] Inr u show ?thesis by simp
    qed
  qed
qed

lemma has_docType_User [simp]: "has_docType t (Text (json_User u)) = (User.DocType u = t)"
  by (auto simp: has_docType_def json_User_def)

lemma has_docType_Car [simp]: "has_docType t (Text (json_Car c)) = (Car.DocType c = t)"
  by (auto simp: has_docType_def json_Car_def)

text \<open>
  Claim C9, as amended.  When the query facility returns an iterator, \<open>QueryAssets\<close>
  decodes every record of it as a car.  If all of them decode, the result is the list of
  what they decode to.  If the iterator fails or one record does not decode as a car
  (bytes that are no JSON object, or a member of a car field with a value of another JSON
  type), the result is an error and no list.  A user record as this chaincode writes it
  is not such a record: its members \<open>ID\<close> and \<open>docType\<close> fill the car's fields, the
  others match no field and are skipped, and it decodes to a car that is zero elsewhere.
\<close>

theorem QueryAssets_decodes_as_cars:
  fixes ctx :: "'a::zero stub"
  assumes "GetQueryResult ctx queryString = (Inr resultsIterator, ctx')"
  shows "((\<forall>r\<in>set resultsIterator. \<exists>car. next_car r = Inr car) \<longrightarrow>
            fst (QueryAssets ctx queryString) = Inr (map (projr \<circ> next_car) resultsIterator)) \<and>
         ((\<exists>r\<in>set resultsIterator. \<exists>err. next_car r = Inl err) \<longrightarrow>
            (\<exists>err. fst (QueryAssets ctx queryString) = Inl err)) \<and>
         (\<forall>key (user :: 'a User). next_car (Inr (key, Text (json_User user))) =
            Inr (zero_Car\<lparr>Car.ID := User.ID user, Car.DocType := User.DocType user\<rparr>))"
proof -
  have q: "fst (QueryAssets ctx queryString) = collect_cars [] resultsIterator"
    using assms
    by (simp add: QueryAssets_def getQueryResultForQueryString_def
          constructQueryResponseFromIterator_def)
  show ?thesis
    using collect_cars_all [of resultsIterator "[]"] collect_cars_failure [of resultsIterator "[]"]
    by (simp add: q next_car_def Unmarshal_Car_of_User)
qed

text \<open>
  The selector on \<open>docType = "user"\<close> matches the three users of the seeded ledger, and
  \<open>QueryAssets\<close> returns them as three cars; with a record whose \<open>price\<close> is a string
  it returns an error.
\<close>

lemma catalogue_results:
  "GetQueryResult catalogue users_selector =
     (Inr [Inr (''user1'', Text (json_User \<lparr>User.ID = ''user1'', User.DocType = ''user'',
               FirstName = ''Marko'', LastName = ''Markovic'', Email = ''marko@gugl.com'',
               Balance = 9000\<rparr>)),
           Inr (''user2'', Text (json_User \<lparr>User.ID = ''user2'', User.DocType = ''user'',
               FirstName = ''Petar'', LastName = ''Petrovic'', Email = ''petar@jahu.com'',
               Balance = 3500\<rparr>)),
           Inr (''user3'', Text (json_User \<lparr>User.ID = ''user3'', User.DocType = ''user'',
               FirstName = ''Nikola'', LastName = ''Nikolic'', Email = ''nikola@bing.com'',
               Balance = 4000\<rparr>))], catalogue)"
  by (simp add: catalogue_def select_docType_def run_defs)

theorem QueryAssets_decodes_as_cars_witness:
  "fst (QueryAssets catalogue users_selector) =
     Inr [zero_Car\<lparr>Car.ID := ''user1'', Car.DocType := ''user''\<rparr>,
          zero_Car\<lparr>Car.ID := ''user2'', Car.DocType := ''user''\<rparr>,
          zero_Car\<lparr>Car.ID := ''user3'', Car.DocType := ''user''\<rparr>] \<and>
   next_car (Inr (''car9'', mispriced)) = Inl JSONError \<and>
   (\<exists>err. fst (QueryAssets
      (catalogue\<lparr>rich := (\<lambda>queryString w. [Inr (''car9'', mispriced)])\<rparr>) users_selector) = Inl err)"
proof -
  have m: "next_car (Inr (''car9'', mispriced)) = Inl JSONError"
    by (simp add: next_car_def mispriced_def set_Car_field_def zero_Car_def)
  have g: "GetQueryResult (catalogue\<lparr>rich := (\<lambda>queryString w. [Inr (''car9'', mispriced)])\<rparr>)
             users_selector =
           (Inr [Inr (''car9'', mispriced)],
            catalogue\<lparr>rich := (\<lambda>queryString w. [Inr (''car9'', mispriced)])\<rparr>)"
    by (simp add: catalogue_def run_defs)
  have a: "\<exists>err. fst (QueryAssets
      (catalogue\<lparr>rich := (\<lambda>queryString w. [Inr (''car9'', mispriced)])\<rparr>) users_selector) = Inl err"
    using QueryAssets_decodes_as_cars [OF g] m by simp
  have b: "fst (QueryAssets catalogue users_selector) =
     Inr [zero_Car\<lparr>Car.ID := ''user1'', Car.DocType := ''user''\<rparr>,
          zero_Car\<lparr>Car.ID := ''user2'', Car.DocType := ''user''\<rparr>,
          zero_Car\<lparr>Car.ID := ''user3'', Car.DocType := ''user''\<rparr>]"
    using QueryAssets_decodes_as_cars [OF catalogue_results]
    by (simp add: next_car_def Unmarshal_Car_of_User)
  from a b m show ?thesis by simp
qed

text \<open>
  Claim C9 as stated fails: the selector matches three stored records that are users,
  not cars, and \<open>QueryAssets\<close> returns a list of three cars, not an error.
\<close>

theorem QueryAssets_users_counterexample:
  "map (\<lambda>key. map_option (has_docType ''user'') (world catalogue key)) [''user1'', ''user2'', ''user3''] =
     [Some True, Some True, Some True] \<and>
   fst (QueryAssets catalogue users_selector) =
     Inr [\<lparr>Car.ID = ''user1'', Car.DocType = ''user'', Brand = [], Model = [], Year = [],
            Color = [], Owner = [], Car.Price = 0, Malfunctions = None\<rparr>,
          \<lparr>Car.ID = ''user2'', Car.DocType = ''user'', Brand = [], Model = [], Year = [],
            Color = [], Owner = [], Car.Price = 0, Malfunctions = None\<rparr>,
          \<lparr>Car.ID = ''user3'', Car.DocType = ''user'', Brand = [], Model = [], Year = [],
            Color = [], Owner = [], Car.Price = 0, Malfunctions = None\<rparr>]"
  by (simp add: catalogue_def select_docType_def QueryAssets_def getQueryResultForQueryString_def
        constructQueryResponseFromIterator_def zero_Car_def run_defs)

end
